theory Spec2Isabelle
  imports Main
begin

section \<open>Domain (internal/domain)\<close>

text \<open>
  \<^verbatim>\<open>time.Time\<close> is modelled as an instant counted in nanoseconds; the zero value of the Go
  type (what an unset field holds, printed 0001-01-01T00:00:00Z) is instant 0.
\<close>

type_synonym gotime = int

abbreviation (input) zero_time :: gotime where
  "zero_time \<equiv> 0"

text \<open>
  Go errors are compared by identity (\<^verbatim>\<open>err == domain.ErrUserNotFound\<close>). The two sentinels
  of errors.go, the sentinel \<^verbatim>\<open>sql.ErrNoRows\<close> of database/sql and any other error (known by its
  text only) are distinct constructors.
\<close>

datatype error = ErrUserNotFound | ErrInvalidInput | ErrNoRows | OtherError string

fun error_text :: "error \<Rightarrow> string" where
  "error_text ErrUserNotFound = ''user not found''"
| "error_text ErrInvalidInput = ''invalid input''"
| "error_text ErrNoRows = ''sql: no rows in result set''"
| "error_text (OtherError m) = m"

record User =
  ID :: string
  Email :: string
  Password :: string
  Name :: string
  CreatedAt :: gotime
  UpdatedAt :: gotime

definition zero_User :: User where
  "zero_User = \<lparr>ID = [], Email = [], Password = [], Name = [],
                 CreatedAt = zero_time, UpdatedAt = zero_time\<rparr>"

section \<open>Logger (internal/pkg/logger)\<close>

text \<open>One constructor per logging method the handlers call: message, error, fields.\<close>

datatype log_entry =
    LogInfo string "(string \<times> string) list"
  | LogWarn string "(string \<times> string) list"
  | LogError string error "(string \<times> string) list"

section \<open>Data store (internal/repository)\<close>

text \<open>
  The table \<^verbatim>\<open>users\<close> is a list of rows (the schema is not part of the sources, so no
  uniqueness of \<^verbatim>\<open>id\<close> is built in). \<open>fault\<close> is the error, if any, that the driver
  reports for a statement on this connection (lost connection, violated constraint); with
  \<open>fault = None\<close> a statement runs against the rows.
\<close>

record database =
  rows :: "User list"
  fault :: "string option"

text \<open>UserRepository.Create: \<open>uuid\<close> is the value of \<^verbatim>\<open>uuid.New().String()\<close>, \<open>t1\<close> and
  \<open>t2\<close> are the readings of the first and of the second call of \<^verbatim>\<open>time.Now()\<close>. The user
  is mutated through its pointer before the statement runs, so the updated user is returned
  on failure too.\<close>

definition repo_Create ::
  "string \<Rightarrow> gotime \<Rightarrow> gotime \<Rightarrow> database \<Rightarrow> User \<Rightarrow> error option \<times> User \<times> database" where
  "repo_Create uuid t1 t2 d user =
     (let user = (if ID user = [] then user\<lparr>ID := uuid\<rparr> else user);
          user = user\<lparr>CreatedAt := t1\<rparr>;
          user = user\<lparr>UpdatedAt := t2\<rparr>
      in case fault d of
           Some m \<Rightarrow> (Some (OtherError m), user, d)
         | None \<Rightarrow> (None, user, d\<lparr>rows := rows d @ [user]\<rparr>))"

text \<open>UserRepository.GetByID: the query selects id, email, name, created_at, updated_at
  (no password), and \<^verbatim>\<open>GetContext\<close> gives \<^verbatim>\<open>sql.ErrNoRows\<close> on an empty result; the
  error is returned as it is.\<close>

definition repo_GetByID :: "database \<Rightarrow> string \<Rightarrow> error + User" where
  "repo_GetByID d uid =
     (case fault d of
        Some m \<Rightarrow> Inl (OtherError m)
      | None \<Rightarrow>
          (case find (\<lambda>u. ID u = uid) (rows d) of
             None \<Rightarrow> Inl ErrNoRows
           | Some u \<Rightarrow> Inr (u\<lparr>Password := []\<rparr>)))"

definition rows_affected :: "database \<Rightarrow> string \<Rightarrow> nat" where
  "rows_affected d uid = length (filter (\<lambda>u. ID u = uid) (rows d))"

text \<open>UserRepository.Update: \<open>t\<close> is the reading of \<^verbatim>\<open>time.Now()\<close>. The statement
  changes every row with the given id; no row changed is \<^verbatim>\<open>ErrUserNotFound\<close>. (An error of
  \<^verbatim>\<open>RowsAffected\<close> itself is a driver error like that of the statement and is covered by
  \<open>fault\<close>.) Delete has the same shape.\<close>

definition repo_Update :: "gotime \<Rightarrow> database \<Rightarrow> User \<Rightarrow> error option \<times> User \<times> database" where
  "repo_Update t d user =
     (let user = user\<lparr>UpdatedAt := t\<rparr>
      in case fault d of
           Some m \<Rightarrow> (Some (OtherError m), user, d)
         | None \<Rightarrow>
             if rows_affected d (ID user) = 0 then (Some ErrUserNotFound, user, d)
             else (None, user,
                   d\<lparr>rows := map (\<lambda>u. if ID u = ID user
                                        then u\<lparr>Email := Email user, Name := Name user,
                                               UpdatedAt := UpdatedAt user\<rparr>
                                        else u) (rows d)\<rparr>))"

definition repo_Delete :: "database \<Rightarrow> string \<Rightarrow> error option \<times> database" where
  "repo_Delete d uid =
     (case fault d of
        Some m \<Rightarrow> (Some (OtherError m), d)
      | None \<Rightarrow>
          if rows_affected d uid = 0 then (Some ErrUserNotFound, d)
          else (None, d\<lparr>rows := filter (\<lambda>u. ID u \<noteq> uid) (rows d)\<rparr>))"

text \<open>UserRepository.List: newest first. The order of rows of equal \<open>created_at\<close> is the
  database's choice; the model keeps them in table order.\<close>

definition repo_List :: "database \<Rightarrow> error + User list" where
  "repo_List d =
     (case fault d of
        Some m \<Rightarrow> Inl (OtherError m)
      | None \<Rightarrow> Inr (map (\<lambda>u. u\<lparr>Password := []\<rparr>) (sort_key (\<lambda>u. - CreatedAt u) (rows d))))"

section \<open>User service (internal/service)\<close>

text \<open>Each method logs one Info entry and passes the call to the repository.\<close>

record world =
  db :: database
  logged :: "log_entry list"

definition log_add :: "log_entry \<Rightarrow> world \<Rightarrow> world" where
  "log_add e w = w\<lparr>logged := logged w @ [e]\<rparr>"

definition svc_Create ::
  "string \<Rightarrow> gotime \<Rightarrow> gotime \<Rightarrow> world \<Rightarrow> User \<Rightarrow> error option \<times> User \<times> world" where
  "svc_Create uuid t1 t2 w user =
     (let w = log_add (LogInfo ''Creating user'' [(''user_id'', ID user)]) w
      in case repo_Create uuid t1 t2 (db w) user of
           (r, user', d') \<Rightarrow> (r, user', w\<lparr>db := d'\<rparr>))"

definition svc_GetByID :: "world \<Rightarrow> string \<Rightarrow> (error + User) \<times> world" where
  "svc_GetByID w uid =
     (let w = log_add (LogInfo ''Getting user by ID'' [(''user_id'', uid)]) w
      in (repo_GetByID (db w) uid, w))"

definition svc_Update :: "gotime \<Rightarrow> world \<Rightarrow> User \<Rightarrow> error option \<times> User \<times> world" where
  "svc_Update t w user =
     (let w = log_add (LogInfo ''Updating user'' [(''user_id'', ID user)]) w
      in case repo_Update t (db w) user of
           (r, user', d') \<Rightarrow> (r, user', w\<lparr>db := d'\<rparr>))"

definition svc_Delete :: "world \<Rightarrow> string \<Rightarrow> error option \<times> world" where
  "svc_Delete w uid =
     (let w = log_add (LogInfo ''Deleting user'' [(''user_id'', uid)]) w
      in case repo_Delete (db w) uid of (r, d') \<Rightarrow> (r, w\<lparr>db := d'\<rparr>))"

definition svc_List :: "world \<Rightarrow> (error + User list) \<times> world" where
  "svc_List w =
     (let w = log_add (LogInfo ''Listing users'' []) w
      in (repo_List (db w), w))"

section \<open>HTTP handlers (internal/transport/http)\<close>

record createUserRQ =
  rq_Email :: string
  rq_Password :: string
  rq_Name :: string

record updateUserRQ =
  ru_Email :: string
  ru_Name :: string

text \<open>
  The handlers are modelled without the logging middleware \<^verbatim>\<open>logRequest\<close>, which runs the
  handler, then logs the request, and leaves the response as it is.

  A request, as far as the handlers read it: the URL path, the path value \<^verbatim>\<open>id\<close> (empty
  when there is none) and the outcome of \<^verbatim>\<open>decodeJSONBody\<close>, either the decoder's error
  text or the decoded payload (a JSON field that is absent decodes to the empty string).
\<close>

record 'a request =
  URLPath :: string
  PathValue_id :: string
  Decoded :: "string + 'a"

datatype jvalue = JString string | JTime gotime

type_synonym jobject = "(string \<times> jvalue) list"

datatype jbody = NoBody | JNull | JObject jobject | JArray "jobject list"

record response =
  status :: nat
  body :: jbody

abbreviation (input) StatusOK :: nat where "StatusOK \<equiv> 200"
abbreviation (input) StatusCreated :: nat where "StatusCreated \<equiv> 201"
abbreviation (input) StatusNoContent :: nat where "StatusNoContent \<equiv> 204"
abbreviation (input) StatusBadRequest :: nat where "StatusBadRequest \<equiv> 400"
abbreviation (input) StatusNotFound :: nat where "StatusNotFound \<equiv> 404"
abbreviation (input) StatusInternalServerError :: nat where "StatusInternalServerError \<equiv> 500"

text \<open>The JSON form of a User follows the struct tags of user.go: the password is tagged
  \<^verbatim>\<open>json:"-"\<close> and is not written.\<close>

definition json_User :: "User \<Rightarrow> jobject" where
  "json_User u =
     [(''id'', JString (ID u)), (''email'', JString (Email u)), (''name'', JString (Name u)),
      (''created_at'', JTime (CreatedAt u)), (''updated_at'', JTime (UpdatedAt u))]"

definition json_errorRS :: "string \<Rightarrow> jobject" where
  "json_errorRS m = [(''error'', JString m)]"

definition respondJSON :: "nat \<Rightarrow> jbody \<Rightarrow> response" where
  "respondJSON st data = \<lparr>status = st, body = data\<rparr>"

definition respondError :: "nat \<Rightarrow> error \<Rightarrow> response" where
  "respondError st e = respondJSON st (JObject (json_errorRS (error_text e)))"

text \<open>\<^verbatim>\<open>strings.Index\<close> and \<^verbatim>\<open>strings.LastIndex\<close> for a one-byte separator: the byte index
  of the first (last) occurrence, \<open>-1\<close> when there is none.\<close>

fun Index :: "string \<Rightarrow> char \<Rightarrow> int" where
  "Index [] c = - 1"
| "Index (x # xs) c =
     (if x = c then 0 else (let r = Index xs c in if r < 0 then - 1 else r + 1))"

fun LastIndex :: "string \<Rightarrow> char \<Rightarrow> int" where
  "LastIndex [] c = - 1"
| "LastIndex (x # xs) c =
     (let r = LastIndex xs c in if 0 \<le> r then r + 1 else if x = c then 0 else - 1)"

definition isValidEmail :: "string \<Rightarrow> bool" where
  "isValidEmail email =
     (let atIndex = Index email CHR ''@''
      in if atIndex < 1 then False
         else (let dotIndex = LastIndex email CHR ''.''
               in dotIndex > atIndex \<and> dotIndex < int (length email) - 1))"

definition createUser ::
  "string \<Rightarrow> gotime \<Rightarrow> gotime \<Rightarrow> world \<Rightarrow> createUserRQ request \<Rightarrow> response \<times> world" where
  "createUser uuid t1 t2 w r =
     (case Decoded r of
        Inl m \<Rightarrow>
          (respondError StatusBadRequest (OtherError m),
           log_add (LogError ''Failed to decode request body'' (OtherError m)
                      [(''path'', URLPath r)]) w)
      | Inr req \<Rightarrow>
          if rq_Email req = [] \<or> rq_Password req = [] then
            (respondError StatusBadRequest ErrInvalidInput,
             log_add (LogWarn ''Missing required fields'' [(''path'', URLPath r)]) w)
          else if \<not> isValidEmail (rq_Email req) then
            (respondError StatusBadRequest ErrInvalidInput,
             log_add (LogWarn ''Invalid email format'' [(''email'', rq_Email req)]) w)
          else
            (let user = zero_User\<lparr>Email := rq_Email req, Password := rq_Password req,
                                  Name := rq_Name req\<rparr>
             in case svc_Create uuid t1 t2 w user of
                  (Some e, user', w') \<Rightarrow>
                    (respondError StatusInternalServerError e,
                     log_add (LogError ''Failed to create user'' e
                                [(''email'', rq_Email req)]) w')
                | (None, user', w') \<Rightarrow>
                    (respondJSON StatusCreated (JObject (json_User user')), w')))"

definition getUserByID :: "world \<Rightarrow> 'a request \<Rightarrow> response \<times> world" where
  "getUserByID w r =
     (let uid = PathValue_id r
      in if uid = [] then
           (respondError StatusBadRequest ErrInvalidInput,
            log_add (LogWarn ''Missing user ID'' [(''path'', URLPath r)]) w)
         else
           (case svc_GetByID w uid of
              (Inl e, w') \<Rightarrow>
                if e = ErrUserNotFound then
                  (respondError StatusNotFound e,
                   log_add (LogWarn ''User not found'' [(''user_id'', uid)]) w')
                else
                  (respondError StatusInternalServerError e,
                   log_add (LogError ''Failed to get user'' e [(''user_id'', uid)]) w')
            | (Inr user, w') \<Rightarrow> (respondJSON StatusOK (JObject (json_User user)), w')))"

definition updateUser :: "gotime \<Rightarrow> world \<Rightarrow> updateUserRQ request \<Rightarrow> response \<times> world" where
  "updateUser t w r =
     (let uid = PathValue_id r
      in if uid = [] then
           (respondError StatusBadRequest ErrInvalidInput,
            log_add (LogWarn ''Missing user ID'' [(''path'', URLPath r)]) w)
         else
           (case Decoded r of
              Inl m \<Rightarrow>
                (respondError StatusBadRequest (OtherError m),
                 log_add (LogError ''Failed to decode request body'' (OtherError m)
                            [(''path'', URLPath r)]) w)
            | Inr req \<Rightarrow>
                (let user = zero_User\<lparr>ID := uid, Email := ru_Email req, Name := ru_Name req\<rparr>
                 in case svc_Update t w user of
                      (Some e, user', w') \<Rightarrow>
                        if e = ErrUserNotFound then
                          (respondError StatusNotFound e,
                           log_add (LogWarn ''User not found for update''
                                      [(''user_id'', uid)]) w')
                        else
                          (respondError StatusInternalServerError e,
                           log_add (LogError ''Failed to update user'' e
                                      [(''user_id'', uid)]) w')
                    | (None, user', w') \<Rightarrow>
                        (respondJSON StatusOK (JObject (json_User user')), w'))))"

definition deleteUser :: "world \<Rightarrow> 'a request \<Rightarrow> response \<times> world" where
  "deleteUser w r =
     (let uid = PathValue_id r
      in if uid = [] then
           (respondError StatusBadRequest ErrInvalidInput,
            log_add (LogWarn ''Missing user ID'' [(''path'', URLPath r)]) w)
         else
           (case svc_Delete w uid of
              (Some e, w') \<Rightarrow>
                if e = ErrUserNotFound then
                  (respondError StatusNotFound e,
                   log_add (LogWarn ''User not found for deletion'' [(''user_id'', uid)]) w')
                else
                  (respondError StatusInternalServerError e,
                   log_add (LogError ''Failed to delete user'' e [(''user_id'', uid)]) w')
            | (None, w') \<Rightarrow> (respondJSON StatusNoContent NoBody, w')))"

text \<open>listUsers: the body of a successful answer is the array of the users. On an empty
  result \<^verbatim>\<open>SelectContext\<close> leaves the slice \<^verbatim>\<open>nil\<close>, which is encoded as JSON \<^verbatim>\<open>null\<close>.\<close>

definition listUsers :: "world \<Rightarrow> 'a request \<Rightarrow> response \<times> world" where
  "listUsers w r =
     (case svc_List w of
        (Inl e, w') \<Rightarrow>
          (respondError StatusInternalServerError e,
           log_add (LogError ''Failed to list users'' e []) w')
      | (Inr users, w') \<Rightarrow>
          (respondJSON StatusOK (if users = [] then JNull else JArray (map json_User users)),
           w'))"

text \<open>The check of the email as the specification words it: an \<open>@\<close> at a position
  \<open>\<ge> 1\<close> and, somewhere after it, a \<open>.\<close> that is not the last character.\<close>

definition spec_email_check :: "string \<Rightarrow> bool" where
  "spec_email_check e =
     (\<exists>i \<in> set [1..<length e]. \<exists>j \<in> set [i + 1..<length e - 1].
        e ! i = CHR ''@'' \<and> e ! j = CHR ''.'')"




section \<open>Graceful shutdown in main\<close>

text \<open>
  The end of \<^verbatim>\<open>main\<close>, from the creation of the shutdown context: two goroutines, one per
  server, each calling \<^verbatim>\<open>Shutdown(shutdownCtx)\<close>, sending the wrapped error on
  \<^verbatim>\<open>shutdownErrors\<close> when there is one and then a token on \<^verbatim>\<open>shutdownDone\<close>; the main
  goroutine receives twice from either channel and returns. The interleaving is a list of
  events; an event that is not enabled in a state has no successor.
\<close>

datatype component = HTTP | GRPC

datatype goroutine =
    Calling
  | HasError string
  | Signalling
  | Finished

record shutdown_state =
  http_g :: goroutine
  grpc_g :: goroutine
  shutdownErrors :: "string list"
  shutdownDone :: nat
  loop_i :: nat
  main_logged :: "log_entry list"
  deadline_expired :: bool
  exit_status :: "nat option"

definition shutdown_init :: shutdown_state where
  "shutdown_init =
     \<lparr>http_g = Calling, grpc_g = Calling, shutdownErrors = [], shutdownDone = 0,
      loop_i = 0, main_logged = [], deadline_expired = False, exit_status = None\<rparr>"

fun g_of :: "component \<Rightarrow> shutdown_state \<Rightarrow> goroutine" where
  "g_of HTTP s = http_g s"
| "g_of GRPC s = grpc_g s"

fun set_g :: "component \<Rightarrow> goroutine \<Rightarrow> shutdown_state \<Rightarrow> shutdown_state" where
  "set_g HTTP g s = s\<lparr>http_g := g\<rparr>"
| "set_g GRPC g s = s\<lparr>grpc_g := g\<rparr>"

fun error_prefix :: "component \<Rightarrow> string" where
  "error_prefix HTTP = ''HTTP server shutdown error: ''"
| "error_prefix GRPC = ''gRPC server shutdown error: ''"

text \<open>What a call of \<^verbatim>\<open>Shutdown\<close> may return. The gRPC server (server.go) returns
  \<^verbatim>\<open>ctx.Err()\<close> once the context is done and \<^verbatim>\<open>nil\<close> when \<^verbatim>\<open>GracefulStop\<close> has finished;
  the HTTP server passes on what \<^verbatim>\<open>net/http\<close> returns, an error of closing a listener
  or the context's error.\<close>

fun may_return :: "component \<Rightarrow> string option \<Rightarrow> shutdown_state \<Rightarrow> bool" where
  "may_return HTTP r s = True"
| "may_return GRPC None s = True"
| "may_return GRPC (Some e) s = (deadline_expired s \<and> e = ''context deadline exceeded'')"

datatype event =
    ShutdownReturns component "string option"
  | SendError component
  | SendDone component
  | RecvError
  | RecvDone
  | DeadlineExpires
  | MainReturns

fun shutdown_step :: "event \<Rightarrow> shutdown_state \<Rightarrow> shutdown_state option" where
  "shutdown_step (ShutdownReturns c r) s =
     (if exit_status s = None \<and> g_of c s = Calling \<and> may_return c r s
      then Some (set_g c (case r of None \<Rightarrow> Signalling | Some e \<Rightarrow> HasError e) s)
      else None)"
| "shutdown_step (SendError c) s =
     (case g_of c s of
        HasError e \<Rightarrow>
          if exit_status s = None \<and> length (shutdownErrors s) < 2
          then Some (set_g c Signalling
                       (s\<lparr>shutdownErrors := shutdownErrors s @ [error_prefix c @ e]\<rparr>))
          else None
      | _ \<Rightarrow> None)"
| "shutdown_step (SendDone c) s =
     (if exit_status s = None \<and> g_of c s = Signalling \<and> shutdownDone s < 2
      then Some (set_g c Finished (s\<lparr>shutdownDone := Suc (shutdownDone s)\<rparr>))
      else None)"
| "shutdown_step RecvError s =
     (if exit_status s = None \<and> loop_i s < 2
      then (case shutdownErrors s of
              [] \<Rightarrow> None
            | e # es \<Rightarrow>
                Some (s\<lparr>shutdownErrors := es, loop_i := Suc (loop_i s),
                        main_logged := main_logged s @
                          [LogError ''Shutdown error'' (OtherError e) []]\<rparr>))
      else None)"
| "shutdown_step RecvDone s =
     (if exit_status s = None \<and> loop_i s < 2 \<and> 0 < shutdownDone s
      then Some (s\<lparr>shutdownDone := shutdownDone s - 1, loop_i := Suc (loop_i s),
                   main_logged := main_logged s @
                     [LogInfo ''Server shutdown completed successfully'' []]\<rparr>)
      else None)"
| "shutdown_step DeadlineExpires s =
     (if exit_status s = None then Some (s\<lparr>deadline_expired := True\<rparr>) else None)"
| "shutdown_step MainReturns s =
     (if exit_status s = None \<and> loop_i s = 2
      then Some (s\<lparr>main_logged := main_logged s @ [LogInfo ''Servers gracefully stopped'' []],
                   exit_status := Some 0\<rparr>)
      else None)"

fun shutdown_run :: "event list \<Rightarrow> shutdown_state \<Rightarrow> shutdown_state option" where
  "shutdown_run [] s = Some s"
| "shutdown_run (ev # evs) s =
     (case shutdown_step ev s of None \<Rightarrow> None | Some s' \<Rightarrow> shutdown_run evs s')"

text \<open>The wait is over when the loop has made its two receives; a component has reported
  when its call of \<^verbatim>\<open>Shutdown\<close> has returned.\<close>

definition wait_over :: "shutdown_state \<Rightarrow> bool" where
  "wait_over s = (loop_i s = 2)"

definition reported :: "component \<Rightarrow> shutdown_state \<Rightarrow> bool" where
  "reported c s = (g_of c s \<noteq> Calling)"

section \<open>Worker (internal/worker)\<close>

text \<open>
  An \<^verbatim>\<open>amqp.Delivery\<close>, as far as the worker uses it: the body and the acknowledger.
  \<open>Acknowledger = None\<close> is the nil acknowledger of the zero value; \<open>Some r\<close> is a
  broker channel whose \<^verbatim>\<open>Ack\<close> returns \<open>r\<close> (\<open>None\<close> for \<^verbatim>\<open>nil\<close>). \<^verbatim>\<open>Delivery.Ack\<close> of
  the amqp library returns its error "delivery not initialized" on a nil acknowledger.
\<close>

record delivery =
  Body :: string
  Acknowledger :: "string option option"

definition zero_delivery :: delivery where
  "zero_delivery = \<lparr>Body = [], Acknowledger = None\<rparr>"

definition Ack :: "delivery \<Rightarrow> string option" where
  "Ack d = (case Acknowledger d of None \<Rightarrow> Some ''delivery not initialized'' | Some r \<Rightarrow> r)"

text \<open>
  The state of \<^verbatim>\<open>Worker.Run\<close> inside its loop: the deliveries waiting in the channel
  \<^verbatim>\<open>messages\<close>, whether the broker has closed the channel, whether the context is
  cancelled, the lines printed by \<^verbatim>\<open>log.Printf\<close>, the deliveries on which \<^verbatim>\<open>Ack\<close> was
  called, and the value \<^verbatim>\<open>Run\<close> has returned (\<open>None\<close> while it runs, \<open>Some None\<close> for
  \<^verbatim>\<open>nil\<close>).
\<close>

record worker_state =
  messages :: "delivery list"
  chan_closed :: bool
  ctx_done :: bool
  printed :: "string list"
  ack_calls :: "delivery list"
  returned :: "string option option"

text \<open>\<^verbatim>\<open>Run\<close> up to the loop: \<open>consume\<close> is the error of \<^verbatim>\<open>Consume("tasks")\<close>, if any.\<close>

definition Run_start :: "string option \<Rightarrow> worker_state" where
  "Run_start consume =
     \<lparr>messages = [], chan_closed = False, ctx_done = False, printed = [], ack_calls = [],
      returned = (case consume of None \<Rightarrow> None | Some e \<Rightarrow> Some (Some e))\<rparr>"

definition processMessage :: "delivery \<Rightarrow> worker_state \<Rightarrow> string option \<times> worker_state" where
  "processMessage msg s =
     (Ack msg,
      s\<lparr>printed := printed s @ [''Processing message: '' @ Body msg],
        ack_calls := ack_calls s @ [msg]\<rparr>)"

text \<open>One pass of the loop body for the delivery \<open>msg\<close> that the select received.\<close>

definition handle_delivery :: "delivery \<Rightarrow> worker_state \<Rightarrow> worker_state" where
  "handle_delivery msg s =
     (case processMessage msg s of
        (Some e, s') \<Rightarrow> s'\<lparr>printed := printed s' @ [''Error processing message: '' @ e]\<rparr>
      | (None, s') \<Rightarrow> s')"

text \<open>
  Events: the broker delivers a message or closes the channel, the context is cancelled,
  and the two cases of the select. \<open>SelectDone\<close> is enabled once the context is done;
  \<open>SelectMessage\<close> is enabled when a delivery waits, and also, with the zero value, when
  the channel is closed and empty (a receive from a closed channel does not block, and the
  loop does not test the second result of the receive).
\<close>

datatype worker_event = Deliver delivery | CloseChannel | Cancel | SelectDone | SelectMessage

fun worker_step :: "worker_event \<Rightarrow> worker_state \<Rightarrow> worker_state option" where
  "worker_step (Deliver d) s =
     (if chan_closed s then None else Some (s\<lparr>messages := messages s @ [d]\<rparr>))"
| "worker_step CloseChannel s =
     (if chan_closed s then None else Some (s\<lparr>chan_closed := True\<rparr>))"
| "worker_step Cancel s = Some (s\<lparr>ctx_done := True\<rparr>)"
| "worker_step SelectDone s =
     (if returned s = None \<and> ctx_done s then Some (s\<lparr>returned := Some None\<rparr>) else None)"
| "worker_step SelectMessage s =
     (if returned s \<noteq> None then None
      else (case messages s of
              msg # rest \<Rightarrow> Some (handle_delivery msg (s\<lparr>messages := rest\<rparr>))
            | [] \<Rightarrow> if chan_closed s then Some (handle_delivery zero_delivery s) else None))"

fun worker_run :: "worker_event list \<Rightarrow> worker_state \<Rightarrow> worker_state option" where
  "worker_run [] s = Some s"
| "worker_run (ev # evs) s =
     (case worker_step ev s of None \<Rightarrow> None | Some s' \<Rightarrow> worker_run evs s')"

section \<open>Facts about the handlers\<close>

lemmas handler_defs =
  createUser_def getUserByID_def updateUser_def deleteUser_def listUsers_def
  svc_Create_def svc_GetByID_def svc_Update_def svc_Delete_def svc_List_def
  repo_Create_def repo_GetByID_def repo_Update_def repo_Delete_def repo_List_def
  log_add_def respondError_def respondJSON_def json_errorRS_def json_User_def
  zero_User_def Let_def

subsection \<open>Index and LastIndex\<close>

lemma Index_ge: "- 1 \<le> Index xs c"
  by (induction xs) (auto simp: Let_def)

lemma Index_lt: "Index xs c < int (length xs)"
  by (induction xs) (auto simp: Let_def)

lemma Index_neg_iff: "Index xs c < 0 \<longleftrightarrow> c \<notin> set xs"
  by (induction xs) (auto simp: Let_def)

lemma Index_eq_iff:
  "Index xs c = int i \<longleftrightarrow> i < length xs \<and> xs ! i = c \<and> (\<forall>k<i. xs ! k \<noteq> c)"
proof (induction xs arbitrary: i)
  case Nil
  then show ?case by simp
next
  case (Cons x xs)
  show ?case
  proof (cases "x = c")
    case True
    then show ?thesis by (cases i) auto
  next
    case False
    show ?thesis
    proof (cases i)
      case 0
      with False show ?thesis using Index_ge[of xs c] by (auto simp: Let_def)
    next
      case (Suc n)
      have "Index (x # xs) c = int (Suc n) \<longleftrightarrow> Index xs c = int n"
        using False by (auto simp: Let_def)
      also have "\<dots> \<longleftrightarrow> n < length xs \<and> xs ! n = c \<and> (\<forall>k<n. xs ! k \<noteq> c)"
        by (rule Cons.IH)
      also have "\<dots> \<longleftrightarrow> Suc n < length (x # xs) \<and> (x # xs) ! Suc n = c \<and> (\<forall>k<Suc n. (x # xs) ! k \<noteq> c)"
        using False by (auto simp: less_Suc_eq_0_disj)
      finally show ?thesis using Suc by simp
    qed
  qed
qed

lemma LastIndex_ge: "- 1 \<le> LastIndex xs c"
  by (induction xs) (auto simp: Let_def)

lemma LastIndex_neg_iff: "LastIndex xs c < 0 \<longleftrightarrow> c \<notin> set xs"
  by (induction xs) (auto simp: Let_def)

lemma LastIndex_eq_iff:
  "LastIndex xs c = int j \<longleftrightarrow>
     j < length xs \<and> xs ! j = c \<and> (\<forall>k. j < k \<and> k < length xs \<longrightarrow> xs ! k \<noteq> c)"
proof (induction xs arbitrary: j)
  case Nil
  then show ?case by simp
next
  case (Cons x xs)
  show ?case
  proof (cases "c \<in> set xs")
    case True
    then have nn: "0 \<le> LastIndex xs c" using LastIndex_neg_iff[of xs c] by auto
    obtain m where m: "m < length xs" "xs ! m = c" using True by (auto simp: in_set_conv_nth)
    show ?thesis
    proof (cases j)
      case 0
      have "LastIndex (x # xs) c \<noteq> 0" using nn by (auto simp: Let_def)
      moreover have "\<not> (\<forall>k. 0 < k \<and> k < length (x # xs) \<longrightarrow> (x # xs) ! k \<noteq> c)"
        using m by (auto intro!: exI[of _ "Suc m"])
      ultimately show ?thesis using 0 by auto
    next
      case (Suc n)
      have "LastIndex (x # xs) c = int (Suc n) \<longleftrightarrow> LastIndex xs c = int n"
        using nn by (auto simp: Let_def)
      also have "\<dots> \<longleftrightarrow> n < length xs \<and> xs ! n = c \<and> (\<forall>k. n < k \<and> k < length xs \<longrightarrow> xs ! k \<noteq> c)"
        by (rule Cons.IH)
      also have "\<dots> \<longleftrightarrow> Suc n < length (x # xs) \<and> (x # xs) ! Suc n = c \<and>
           (\<forall>k. Suc n < k \<and> k < length (x # xs) \<longrightarrow> (x # xs) ! k \<noteq> c)"
        apply auto
        subgoal for k by (cases k) auto
        done
      finally show ?thesis using Suc by simp
    qed
  next
    case False
    then have neg: "LastIndex xs c < 0" using LastIndex_neg_iff[of xs c] by auto
    have nth: "\<And>k. k < length xs \<Longrightarrow> xs ! k \<noteq> c" using False by (auto simp: in_set_conv_nth)
    show ?thesis
    proof (cases j)
      case 0
      then show ?thesis using neg nth LastIndex_ge[of xs c]
        apply (auto simp: Let_def)
        subgoal for k by (cases k) auto
        done
    next
      case (Suc n)
      then show ?thesis using neg nth LastIndex_ge[of xs c] by (auto simp: Let_def)
    qed
  qed
qed

lemma isValidEmail_iff:
  "isValidEmail e \<longleftrightarrow>
     (\<exists>i j. 1 \<le> i \<and> i < j \<and> j + 1 < length e \<and>
            e ! i = CHR ''@'' \<and> (\<forall>k<i. e ! k \<noteq> CHR ''@'') \<and>
            e ! j = CHR ''.'' \<and> (\<forall>k. j < k \<and> k < length e \<longrightarrow> e ! k \<noteq> CHR ''.''))"
  (is "?L \<longleftrightarrow> ?R")
proof
  assume L: ?L
  define a where "a = Index e CHR ''@''"
  define d where "d = LastIndex e CHR ''.''"
  from L have a1: "1 \<le> a" and ad: "a < d" and dl: "d < int (length e) - 1"
    by (auto simp: isValidEmail_def Let_def a_def d_def split: if_splits)
  obtain i where i: "a = int i" using a1 by (metis nonneg_int_cases order_trans zero_le_one)
  obtain j where j: "d = int j" using a1 ad by (metis nonneg_int_cases less_imp_le order_trans zero_le_one)
  from i have I: "i < length e \<and> e ! i = CHR ''@'' \<and> (\<forall>k<i. e ! k \<noteq> CHR ''@'')"
    using Index_eq_iff[of e "CHR ''@''" i] by (simp add: a_def)
  from j have J: "j < length e \<and> e ! j = CHR ''.'' \<and> (\<forall>k. j < k \<and> k < length e \<longrightarrow> e ! k \<noteq> CHR ''.'')"
    using LastIndex_eq_iff[of e "CHR ''.''" j] by (simp add: d_def)
  have "1 \<le> i" "i < j" "j + 1 < length e" using a1 ad dl i j by auto
  with I J show ?R by blast
next
  assume ?R
  then obtain i j where ij: "1 \<le> i" "i < j" "j + 1 < length e"
     "e ! i = CHR ''@''" "\<forall>k<i. e ! k \<noteq> CHR ''@''"
     "e ! j = CHR ''.''" "\<forall>k. j < k \<and> k < length e \<longrightarrow> e ! k \<noteq> CHR ''.''"
    by blast
  have "Index e CHR ''@'' = int i" using ij by (subst Index_eq_iff) auto
  moreover have "LastIndex e CHR ''.'' = int j" using ij by (subst LastIndex_eq_iff) auto
  ultimately show ?L using ij by (auto simp: isValidEmail_def Let_def)
qed

lemma isValidEmail_imp_spec_email_check:
  assumes "isValidEmail e"
  shows "spec_email_check e"
proof -
  from assms obtain i j where ij: "1 \<le> i" "i < j" "j + 1 < length e"
      "e ! i = CHR ''@''" "e ! j = CHR ''.''"
    unfolding isValidEmail_iff by blast
  then have "i \<in> set [1..<length e]" and "j \<in> set [i + 1..<length e - 1]"
    by auto
  with ij show ?thesis
    unfolding spec_email_check_def by blast
qed

lemma svc_Create_succeeds_iff:
  "fst (svc_Create uuid t1 t2 w u) = None \<longleftrightarrow> fault (db w) = None"
  by (cases "fault (db w)") (simp_all add: handler_defs)

subsection \<open>Looking up an absent id\<close>

text \<open>
  C2. For any id not present in the store, getById, update and delete return 404.
  The code does so for update and delete. For getById it does not: the repository passes
  \<^verbatim>\<open>sql.ErrNoRows\<close> on, the handler compares the error with \<^verbatim>\<open>ErrUserNotFound\<close> only, and
  the response is 500. Here the store holds one user, \<open>u2\<close>, and the id asked for is \<open>u1\<close>.
\<close>

theorem getUserByID_absent_id_is_500:
  "fst (getUserByID
          \<lparr>db = \<lparr>rows = [\<lparr>ID = ''u2'', Email = ''a@b.com'', Password = ''p'', Name = ''A'',
                           CreatedAt = 100, UpdatedAt = 100\<rparr>], fault = None\<rparr>,
           logged = []\<rparr>
          \<lparr>URLPath = ''/api/v1/users/u1'', PathValue_id = ''u1'', Decoded = (Inl [] :: string + unit)\<rparr>)
     = \<lparr>status = 500, body = JObject [(''error'', JString ''sql: no rows in result set'')]\<rparr> \<and>
   status (fst (updateUser 200
          \<lparr>db = \<lparr>rows = [\<lparr>ID = ''u2'', Email = ''a@b.com'', Password = ''p'', Name = ''A'',
                           CreatedAt = 100, UpdatedAt = 100\<rparr>], fault = None\<rparr>,
           logged = []\<rparr>
          \<lparr>URLPath = ''/api/v1/users/u1'', PathValue_id = ''u1'',
           Decoded = Inr \<lparr>ru_Email = ''c@d.com'', ru_Name = ''C''\<rparr>\<rparr>)) = 404 \<and>
   status (fst (deleteUser
          \<lparr>db = \<lparr>rows = [\<lparr>ID = ''u2'', Email = ''a@b.com'', Password = ''p'', Name = ''A'',
                           CreatedAt = 100, UpdatedAt = 100\<rparr>], fault = None\<rparr>,
           logged = []\<rparr>
          \<lparr>URLPath = ''/api/v1/users/u1'', PathValue_id = ''u1'', Decoded = (Inl [] :: string + unit)\<rparr>)) = 404"
  by (simp add: handler_defs rows_affected_def)

subsection \<open>Validation in create\<close>

text \<open>
  C3, as stated, fails: the email \<open>a@b.c.\<close> has an \<open>@\<close> at position 1 and, after it, a
  \<open>.\<close> that is not the last character, so it passes the check in the specification's
  words; the code looks at the last \<open>.\<close> only, which here is the last character, and
  create answers 400.
\<close>

theorem createUser_trailing_dot_counterexample:
  "spec_email_check ''a@b.c.'' \<and>
   fst (createUser ''u1'' 100 100 \<lparr>db = \<lparr>rows = [], fault = None\<rparr>, logged = []\<rparr>
          \<lparr>URLPath = ''/api/v1/users'', PathValue_id = [],
           Decoded = Inr \<lparr>rq_Email = ''a@b.c.'', rq_Password = ''p'', rq_Name = ''A''\<rparr>\<rparr>)
     = \<lparr>status = 400, body = JObject [(''error'', JString ''invalid input'')]\<rparr>"
proof
  show "spec_email_check ''a@b.c.''"
    by code_simp
qed (simp add: handler_defs isValidEmail_def)

text \<open>
  C3, amended. For a payload that decodes, create returns 400 exactly when the email or the
  password is empty or the email fails the check the code makes, and the body is then the
  InvalidInput error. The email passes that check exactly when its first \<open>@\<close> is at a
  position \<open>i \<ge> 1\<close> and its last \<open>.\<close> is at a position \<open>j\<close> after \<open>i\<close> that is not the last
  position.
\<close>

theorem createUser_InvalidInput_iff:
  assumes "Decoded r = Inr req"
  shows "(status (fst (createUser uuid t1 t2 w r)) = 400 \<longleftrightarrow>
            rq_Email req = [] \<or> rq_Password req = [] \<or> \<not> isValidEmail (rq_Email req)) \<and>
         (status (fst (createUser uuid t1 t2 w r)) = 400 \<longrightarrow>
            body (fst (createUser uuid t1 t2 w r)) =
              JObject [(''error'', JString (error_text ErrInvalidInput))]) \<and>
         (isValidEmail (rq_Email req) \<longleftrightarrow>
            (\<exists>i j. 1 \<le> i \<and> i < j \<and> j + 1 < length (rq_Email req) \<and>
               rq_Email req ! i = CHR ''@'' \<and> (\<forall>k<i. rq_Email req ! k \<noteq> CHR ''@'') \<and>
               rq_Email req ! j = CHR ''.'' \<and>
               (\<forall>k. j < k \<and> k < length (rq_Email req) \<longrightarrow> rq_Email req ! k \<noteq> CHR ''.'')))"
proof (intro conjI)
  show "status (fst (createUser uuid t1 t2 w r)) = 400 \<longleftrightarrow>
          rq_Email req = [] \<or> rq_Password req = [] \<or> \<not> isValidEmail (rq_Email req)"
    using assms by (cases "fault (db w)") (simp_all add: handler_defs)
  show "status (fst (createUser uuid t1 t2 w r)) = 400 \<longrightarrow>
          body (fst (createUser uuid t1 t2 w r)) =
            JObject [(''error'', JString (error_text ErrInvalidInput))]"
    using assms by (cases "fault (db w)") (simp_all add: handler_defs)
  show "isValidEmail (rq_Email req) \<longleftrightarrow>
          (\<exists>i j. 1 \<le> i \<and> i < j \<and> j + 1 < length (rq_Email req) \<and>
             rq_Email req ! i = CHR ''@'' \<and> (\<forall>k<i. rq_Email req ! k \<noteq> CHR ''@'') \<and>
             rq_Email req ! j = CHR ''.'' \<and>
             (\<forall>k. j < k \<and> k < length (rq_Email req) \<longrightarrow> rq_Email req ! k \<noteq> CHR ''.''))"
    by (rule isValidEmail_iff)
qed

theorem createUser_InvalidInput_iff_witness:
  "status (fst (createUser ''u1'' 100 100 \<lparr>db = \<lparr>rows = [], fault = None\<rparr>, logged = []\<rparr>
       \<lparr>URLPath = ''/api/v1/users'', PathValue_id = [],
        Decoded = Inr \<lparr>rq_Email = ''a.b@c'', rq_Password = ''p'', rq_Name = ''A''\<rparr>\<rparr>)) = 400 \<and>
   status (fst (createUser ''u1'' 100 100 \<lparr>db = \<lparr>rows = [], fault = None\<rparr>, logged = []\<rparr>
       \<lparr>URLPath = ''/api/v1/users'', PathValue_id = [],
        Decoded = Inr \<lparr>rq_Email = ''a.b@c.d'', rq_Password = ''p'', rq_Name = ''A''\<rparr>\<rparr>)) \<noteq> 400"
  using createUser_InvalidInput_iff
          [of "\<lparr>URLPath = ''/api/v1/users'', PathValue_id = [],
                Decoded = Inr \<lparr>rq_Email = ''a.b@c'', rq_Password = ''p'', rq_Name = ''A''\<rparr>\<rparr>"
              "\<lparr>rq_Email = ''a.b@c'', rq_Password = ''p'', rq_Name = ''A''\<rparr>"
              "''u1''" 100 100 "\<lparr>db = \<lparr>rows = [], fault = None\<rparr>, logged = []\<rparr>"]
        createUser_InvalidInput_iff
          [of "\<lparr>URLPath = ''/api/v1/users'', PathValue_id = [],
                Decoded = Inr \<lparr>rq_Email = ''a.b@c.d'', rq_Password = ''p'', rq_Name = ''A''\<rparr>\<rparr>"
              "\<lparr>rq_Email = ''a.b@c.d'', rq_Password = ''p'', rq_Name = ''A''\<rparr>"
              "''u1''" 100 100 "\<lparr>db = \<lparr>rows = [], fault = None\<rparr>, logged = []\<rparr>"]
  by (simp add: isValidEmail_def)

subsection \<open>Internal failures\<close>




subsection \<open>Timestamps of create and update\<close>

text \<open>
  C5. A successful update returns 200 with the updated user, whose createdAt is the value
  set at creation. The code answers 200, and the stored row keeps its \<open>created_at\<close>, but
  the body is built from the user the handler filled from the request, whose CreatedAt was
  never set: after a create at instant 100, the update at instant 200 answers with
  \<open>created_at\<close> at the zero instant.
\<close>

theorem updateUser_response_created_at_zero:
  "(let w1 = snd (createUser ''u1'' 100 100 \<lparr>db = \<lparr>rows = [], fault = None\<rparr>, logged = []\<rparr>
                    \<lparr>URLPath = ''/api/v1/users'', PathValue_id = [],
                     Decoded = Inr \<lparr>rq_Email = ''a@b.com'', rq_Password = ''p'',
                                    rq_Name = ''A''\<rparr>\<rparr>);
        rw = updateUser 200 w1
               \<lparr>URLPath = ''/api/v1/users/u1'', PathValue_id = ''u1'',
                Decoded = Inr \<lparr>ru_Email = ''c@d.com'', ru_Name = ''C''\<rparr>\<rparr>
    in fst rw =
         \<lparr>status = 200,
          body = JObject [(''id'', JString ''u1''), (''email'', JString ''c@d.com''),
                          (''name'', JString ''C''), (''created_at'', JTime 0),
                          (''updated_at'', JTime 200)]\<rparr> \<and>
       rows (db (snd rw)) =
         [\<lparr>ID = ''u1'', Email = ''c@d.com'', Password = ''p'', Name = ''C'',
           CreatedAt = 100, UpdatedAt = 200\<rparr>])"
  by (simp add: handler_defs isValidEmail_def rows_affected_def)

text \<open>
  C6. The user returned by create has createdAt equal to updatedAt. The repository reads
  the clock twice, once for each field, so the two differ as soon as the clock advances
  between the readings: here the first reading is 100 and the second 101.
\<close>

theorem createUser_created_at_differs_from_updated_at:
  "fst (createUser ''u1'' 100 101 \<lparr>db = \<lparr>rows = [], fault = None\<rparr>, logged = []\<rparr>
          \<lparr>URLPath = ''/api/v1/users'', PathValue_id = [],
           Decoded = Inr \<lparr>rq_Email = ''a@b.com'', rq_Password = ''p'', rq_Name = ''A''\<rparr>\<rparr>)
     = \<lparr>status = 201,
        body = JObject [(''id'', JString ''u1''), (''email'', JString ''a@b.com''),
                        (''name'', JString ''A''), (''created_at'', JTime 100),
                        (''updated_at'', JTime 101)]\<rparr>"
  by (simp add: handler_defs isValidEmail_def)

subsection \<open>A valid create\<close>

text \<open>
  C7, as stated, fails: a valid payload is one whose email is not empty and passes the
  syntactic check of the specification (an \<open>@\<close> followed later by a \<open>.\<close> that is not the
  last character) and whose password is not empty. The email \<open>@a@b.c\<close> passes that check
  (the \<open>@\<close> at position 2, the \<open>.\<close> at position 4), the password is not empty and the
  store is healthy, yet create answers 400 and not 201: the code looks at the first \<open>@\<close>,
  which is at position 0.
\<close>

theorem createUser_valid_by_spec_rejected_counterexample:
  "''@a@b.c'' \<noteq> [] \<and> ''secret'' \<noteq> [] \<and> spec_email_check ''@a@b.c'' \<and>
   fault (db \<lparr>db = \<lparr>rows = [], fault = None\<rparr>, logged = []\<rparr>) = None \<and>
   fst (createUser ''u1'' 100 101 \<lparr>db = \<lparr>rows = [], fault = None\<rparr>, logged = []\<rparr>
          \<lparr>URLPath = ''/api/v1/users'', PathValue_id = [],
           Decoded = Inr \<lparr>rq_Email = ''@a@b.c'', rq_Password = ''secret'',
                          rq_Name = ''A''\<rparr>\<rparr>)
     = \<lparr>status = 400, body = JObject [(''error'', JString ''invalid input'')]\<rparr>"
proof (intro conjI)
  show "spec_email_check ''@a@b.c''"
    by code_simp
qed (simp_all add: handler_defs isValidEmail_def)

text \<open>
  C7, amended. For every create payload whose email and password are not empty and whose
  email passes the check the code makes (\<open>isValidEmail\<close>: the first \<open>@\<close> at a position
  \<open>\<ge> 1\<close>, the last \<open>.\<close> after it and not the last character; every such email also
  passes the specification's check, see \<open>isValidEmail_imp_spec_email_check\<close>), when the
  service call succeeds (the driver reports no error, see \<open>svc_Create_succeeds_iff\<close>),
  create returns 201 and a JSON object whose \<open>email\<close> and \<open>name\<close> are those of the payload
  and which has no \<open>password\<close> field: its fields are \<open>id\<close>, \<open>email\<close>, \<open>name\<close>,
  \<open>created_at\<close> and \<open>updated_at\<close>.
\<close>

theorem createUser_valid_payload_201:
  assumes "Decoded r = Inr req" and "rq_Email req \<noteq> []" and "rq_Password req \<noteq> []"
    and "isValidEmail (rq_Email req)" and "fault (db w) = None"
  shows "status (fst (createUser uuid t1 t2 w r)) = 201 \<and>
         (\<exists>obj. body (fst (createUser uuid t1 t2 w r)) = JObject obj \<and>
                map_of obj ''email'' = Some (JString (rq_Email req)) \<and>
                map_of obj ''name'' = Some (JString (rq_Name req)) \<and>
                map_of obj ''password'' = None \<and>
                map fst obj = [''id'', ''email'', ''name'', ''created_at'', ''updated_at''])"
  using assms by (simp add: handler_defs)

theorem createUser_valid_payload_201_witness:
  "status (fst (createUser ''u1'' 100 101 \<lparr>db = \<lparr>rows = [], fault = None\<rparr>, logged = []\<rparr>
       \<lparr>URLPath = ''/api/v1/users'', PathValue_id = [],
        Decoded = Inr \<lparr>rq_Email = ''a@b.com'', rq_Password = ''secret'',
                       rq_Name = ''A''\<rparr>\<rparr>)) = 201 \<and>
   (\<exists>obj. body (fst (createUser ''u1'' 100 101
                       \<lparr>db = \<lparr>rows = [], fault = None\<rparr>, logged = []\<rparr>
                       \<lparr>URLPath = ''/api/v1/users'', PathValue_id = [],
                        Decoded = Inr \<lparr>rq_Email = ''a@b.com'', rq_Password = ''secret'',
                                       rq_Name = ''A''\<rparr>\<rparr>)) = JObject obj \<and>
          map_of obj ''email'' = Some (JString ''a@b.com'') \<and>
          map_of obj ''name'' = Some (JString ''A'') \<and>
          map_of obj ''password'' = None)"
proof -
  have v: "isValidEmail ''a@b.com''"
    by (simp add: isValidEmail_def)
  from createUser_valid_payload_201
         [of "\<lparr>URLPath = ''/api/v1/users'', PathValue_id = [],
               Decoded = Inr \<lparr>rq_Email = ''a@b.com'', rq_Password = ''secret'',
                              rq_Name = ''A''\<rparr>\<rparr>"
             "\<lparr>rq_Email = ''a@b.com'', rq_Password = ''secret'', rq_Name = ''A''\<rparr>"
             "\<lparr>db = \<lparr>rows = [], fault = None\<rparr>, logged = []\<rparr>" "''u1''" 100 101]
       v
  show ?thesis by auto
qed

subsection \<open>Deleting twice\<close>

text \<open>
  C9. Delete never succeeds twice for the same id. When the id exists and the driver
  reports no error, the first delete returns 204 with an empty body. A second delete of
  the same id does not return 204, whatever the driver then reports (\<open>f\<close>); when the
  driver reports no error it returns 404; and it leaves the store as it was.
\<close>

theorem deleteUser_twice:
  assumes "fault (db w) = None" and "PathValue_id r \<noteq> []"
    and "PathValue_id r \<in> ID ` set (rows (db w))"
    and "w1 = snd (deleteUser w r)" and "w1' = w1\<lparr>db := (db w1)\<lparr>fault := f\<rparr>\<rparr>"
  shows "status (fst (deleteUser w r)) = 204 \<and> body (fst (deleteUser w r)) = NoBody \<and>
         status (fst (deleteUser w1' r)) \<noteq> 204 \<and>
         (f = None \<longrightarrow> status (fst (deleteUser w1' r)) = 404) \<and>
         db (snd (deleteUser w1' r)) = db w1'"
proof -
  have pos: "filter (\<lambda>u. ID u = PathValue_id r) (rows (db w)) \<noteq> []"
    using assms(3) by (auto simp: filter_empty_conv)
  have first: "status (fst (deleteUser w r)) = 204 \<and> body (fst (deleteUser w r)) = NoBody"
    using assms(1,2) pos by (simp add: handler_defs rows_affected_def)
  have rows1: "rows (db w1') = filter (\<lambda>u. ID u \<noteq> PathValue_id r) (rows (db w))"
    using assms(1,2,4,5) pos by (simp add: handler_defs rows_affected_def)
  have gone: "rows_affected (db w1') (PathValue_id r) = 0"
    by (simp add: rows_affected_def rows1)
  have f: "fault (db w1') = f"
    using assms(5) by simp
  have second: "status (fst (deleteUser w1' r)) \<noteq> 204 \<and>
         (f = None \<longrightarrow> status (fst (deleteUser w1' r)) = 404) \<and>
         db (snd (deleteUser w1' r)) = db w1'"
    using assms(2) gone f by (cases f) (simp_all add: handler_defs)
  from first second show ?thesis by simp
qed

theorem deleteUser_twice_witness:
  "status (fst (deleteUser
      \<lparr>db = \<lparr>rows = [\<lparr>ID = ''u1'', Email = ''a@b.com'', Password = ''p'', Name = ''A'',
                       CreatedAt = 100, UpdatedAt = 100\<rparr>], fault = None\<rparr>, logged = []\<rparr>
      \<lparr>URLPath = ''/api/v1/users/u1'', PathValue_id = ''u1'',
       Decoded = (Inl [] :: string + unit)\<rparr>)) = 204 \<and>
   status (fst (deleteUser
      \<lparr>db = \<lparr>rows = [], fault = None\<rparr>,
       logged = [LogInfo ''Deleting user'' [(''user_id'', ''u1'')]]\<rparr>
      \<lparr>URLPath = ''/api/v1/users/u1'', PathValue_id = ''u1'',
       Decoded = (Inl [] :: string + unit)\<rparr>)) = 404"
  using deleteUser_twice
          [of "\<lparr>db = \<lparr>rows = [\<lparr>ID = ''u1'', Email = ''a@b.com'', Password = ''p'',
                               Name = ''A'', CreatedAt = 100, UpdatedAt = 100\<rparr>],
                      fault = None\<rparr>, logged = []\<rparr>"
              "\<lparr>URLPath = ''/api/v1/users/u1'', PathValue_id = ''u1'',
                Decoded = (Inl [] :: string + unit)\<rparr>"
              "\<lparr>db = \<lparr>rows = [], fault = None\<rparr>,
                logged = [LogInfo ''Deleting user'' [(''user_id'', ''u1'')]]\<rparr>"
              "\<lparr>db = \<lparr>rows = [], fault = None\<rparr>,
                logged = [LogInfo ''Deleting user'' [(''user_id'', ''u1'')]]\<rparr>"
              None]
  by (simp add: handler_defs rows_affected_def)

section \<open>Facts about the shutdown sequence\<close>

lemma set_g_fields [simp]:
  "exit_status (set_g c g s) = exit_status s"
  "loop_i (set_g c g s) = loop_i s"
  "main_logged (set_g c g s) = main_logged s"
  "deadline_expired (set_g c g s) = deadline_expired s"
  "shutdownErrors (set_g c g s) = shutdownErrors s"
  "shutdownDone (set_g c g s) = shutdownDone s"
  by (cases c; simp)+

lemma shutdown_step_exit_status:
  "shutdown_step ev s = Some s' \<Longrightarrow>
     exit_status s = None \<and> (exit_status s' = None \<or> exit_status s' = Some 0)"
  by (cases ev) (auto split: if_splits goroutine.splits list.splits)

lemma shutdown_run_exit_status:
  "shutdown_run evs s = Some s' \<Longrightarrow> exit_status s = None \<or> exit_status s = Some 0 \<Longrightarrow>
     exit_status s' = None \<or> exit_status s' = Some 0"
proof (induction evs arbitrary: s)
  case Nil
  then show ?case by simp
next
  case (Cons ev evs)
  then obtain s1 where s1: "shutdown_step ev s = Some s1" "shutdown_run evs s1 = Some s'"
    by (auto split: option.splits)
  from shutdown_step_exit_status[OF s1(1)]
  have "exit_status s1 = None \<or> exit_status s1 = Some 0" by simp
  with Cons.IH[OF s1(2)] show ?case by simp
qed

lemma RecvError_logs:
  "shutdown_step RecvError s = Some s' \<Longrightarrow>
     main_logged s' =
       main_logged s @ [LogError ''Shutdown error'' (OtherError (hd (shutdownErrors s))) []]"
  by (auto split: if_splits list.splits)

text \<open>
  C1. With both servers started, the wait of \<^verbatim>\<open>main\<close> does not end before every server's
  \<^verbatim>\<open>Shutdown\<close> has reported or the deadline has expired; an error of one server does not
  end the wait for the other. The loop counts two receives, and a goroutine whose
  \<^verbatim>\<open>Shutdown\<close> fails sends twice, the error and the token: when the HTTP server's
  \<^verbatim>\<open>Shutdown\<close> returns an error, both receives are taken by the HTTP goroutine's two
  sends, and the wait is over while the gRPC server's \<^verbatim>\<open>Shutdown\<close> has not returned and
  the deadline has not expired.
\<close>

theorem shutdown_wait_over_before_grpc_reports:
  "(case shutdown_run
          [ShutdownReturns HTTP (Some ''close tcp [::]:8080: use of closed network connection''),
           SendError HTTP, SendDone HTTP, RecvError, RecvDone] shutdown_init of
      None \<Rightarrow> False
    | Some s \<Rightarrow> wait_over s \<and> \<not> reported GRPC s \<and> \<not> deadline_expired s)"
  by (simp add: shutdown_init_def wait_over_def reported_def)

text \<open>
  C8, as stated, fails: the HTTP server's \<^verbatim>\<open>Shutdown\<close> reports an error, the gRPC
  server's succeeds, the error is received and logged, and \<^verbatim>\<open>main\<close> returns: the exit
  status is zero.
\<close>

theorem shutdown_error_exit_zero_counterexample:
  "(case shutdown_run
          [ShutdownReturns HTTP (Some ''close tcp [::]:8080: use of closed network connection''),
           SendError HTTP, SendDone HTTP, ShutdownReturns GRPC None, SendDone GRPC,
           RecvError, RecvDone, MainReturns] shutdown_init of
      None \<Rightarrow> False
    | Some s \<Rightarrow> exit_status s = Some 0)"
  by (simp add: shutdown_init_def)

text \<open>
  C8, amended. Whatever the servers' \<^verbatim>\<open>Shutdown\<close> calls report, the process has, at every
  point of the shutdown sequence, either not exited or exited with status zero; in every
  state the sequence reaches, a receive from \<^verbatim>\<open>shutdownErrors\<close> appends the received
  error to the log as a "Shutdown error" entry; and once the wait is over, \<^verbatim>\<open>main\<close> can
  return, which logs "Servers gracefully stopped" and exits with status zero.
\<close>

theorem shutdown_exit_status_zero:
  assumes "shutdown_run evs shutdown_init = Some s"
  shows "(exit_status s = None \<or> exit_status s = Some 0) \<and>
         (\<forall>s'. shutdown_step RecvError s = Some s' \<longrightarrow>
               main_logged s' =
                 main_logged s @
                   [LogError ''Shutdown error'' (OtherError (hd (shutdownErrors s))) []]) \<and>
         (wait_over s \<and> exit_status s = None \<longrightarrow>
            shutdown_step MainReturns s =
              Some (s\<lparr>main_logged := main_logged s @
                                      [LogInfo ''Servers gracefully stopped'' []],
                      exit_status := Some 0\<rparr>))"
proof (intro conjI)
  show "exit_status s = None \<or> exit_status s = Some 0"
    using shutdown_run_exit_status[OF assms] by (simp add: shutdown_init_def)
  show "\<forall>s'. shutdown_step RecvError s = Some s' \<longrightarrow>
               main_logged s' =
                 main_logged s @
                   [LogError ''Shutdown error'' (OtherError (hd (shutdownErrors s))) []]"
    using RecvError_logs by blast
  show "wait_over s \<and> exit_status s = None \<longrightarrow>
          shutdown_step MainReturns s =
            Some (s\<lparr>main_logged := main_logged s @
                                    [LogInfo ''Servers gracefully stopped'' []],
                    exit_status := Some 0\<rparr>)"
    by (simp add: wait_over_def)
qed

theorem shutdown_exit_status_zero_witness:
  "\<exists>s. shutdown_run
          [DeadlineExpires, ShutdownReturns HTTP (Some ''context deadline exceeded''),
           SendError HTTP, RecvError, SendDone HTTP,
           ShutdownReturns GRPC (Some ''context deadline exceeded''), SendError GRPC,
           RecvError, MainReturns] shutdown_init = Some s \<and>
       exit_status s = Some 0 \<and>
       main_logged s =
         [LogError ''Shutdown error''
            (OtherError ''HTTP server shutdown error: context deadline exceeded'') [],
          LogError ''Shutdown error''
            (OtherError ''gRPC server shutdown error: context deadline exceeded'') [],
          LogInfo ''Servers gracefully stopped'' []]"
proof -
  obtain s where r: "shutdown_run
          [DeadlineExpires, ShutdownReturns HTTP (Some ''context deadline exceeded''),
           SendError HTTP, RecvError, SendDone HTTP,
           ShutdownReturns GRPC (Some ''context deadline exceeded''), SendError GRPC,
           RecvError, MainReturns] shutdown_init = Some s"
    by (simp add: shutdown_init_def)
  from shutdown_exit_status_zero[OF r]
  have z: "exit_status s = None \<or> exit_status s = Some 0" by simp
  from r have e: "exit_status s \<noteq> None" and l: "main_logged s =
         [LogError ''Shutdown error''
            (OtherError ''HTTP server shutdown error: context deadline exceeded'') [],
          LogError ''Shutdown error''
            (OtherError ''gRPC server shutdown error: context deadline exceeded'') [],
          LogInfo ''Servers gracefully stopped'' []]"
    by (auto simp: shutdown_init_def)
  from z e have "exit_status s = Some 0" by simp
  with r l show ?thesis by blast
qed

section \<open>Facts about the worker loop\<close>

lemma worker_step_returned:
  "worker_step ev s = Some s' \<Longrightarrow>
     returned s = None \<or> returned s = Some None \<and> ctx_done s \<Longrightarrow>
     returned s' = None \<or> returned s' = Some None \<and> ctx_done s'"
  by (cases ev)
     (auto simp: handle_delivery_def processMessage_def
           split: if_splits list.splits option.splits)

lemma worker_run_returned:
  "worker_run evs s = Some s' \<Longrightarrow>
     returned s = None \<or> returned s = Some None \<and> ctx_done s \<Longrightarrow>
     returned s' = None \<or> returned s' = Some None \<and> ctx_done s'"
proof (induction evs arbitrary: s)
  case Nil
  then show ?case by simp
next
  case (Cons ev evs)
  then obtain s1 where s1: "worker_step ev s = Some s1" "worker_run evs s1 = Some s'"
    by (auto split: option.splits)
  from worker_step_returned[OF s1(1) Cons.prems(2)] Cons.IH[OF s1(2)] show ?case by simp
qed

lemma handle_zero_delivery:
  "handle_delivery zero_delivery s =
     s\<lparr>printed := printed s @ [''Processing message: '',
                                ''Error processing message: delivery not initialized''],
       ack_calls := ack_calls s @ [zero_delivery]\<rparr>"
  by (simp add: handle_delivery_def processMessage_def Ack_def zero_delivery_def)

lemma closed_channel_spin:
  "chan_closed s \<Longrightarrow> messages s = [] \<Longrightarrow> returned s = None \<Longrightarrow>
   \<exists>s'. worker_run (replicate n SelectMessage) s = Some s' \<and> returned s' = None \<and>
        chan_closed s' \<and> messages s' = [] \<and> ctx_done s' = ctx_done s \<and>
        ack_calls s' = ack_calls s @ replicate n zero_delivery"
proof (induction n arbitrary: s)
  case 0
  then show ?case by simp
next
  case (Suc n)
  let ?s1 = "handle_delivery zero_delivery s"
  have st: "worker_step SelectMessage s = Some ?s1"
    using Suc.prems by simp
  have "chan_closed ?s1" "messages ?s1 = []" "returned ?s1 = None"
    using Suc.prems by (simp_all add: handle_zero_delivery)
  from Suc.IH[OF this] obtain s' where
    "worker_run (replicate n SelectMessage) ?s1 = Some s'" "returned s' = None"
    "chan_closed s'" "messages s' = []" "ctx_done s' = ctx_done ?s1"
    "ack_calls s' = ack_calls ?s1 @ replicate n zero_delivery"
    by blast
  then show ?case
    using st by (simp add: handle_zero_delivery replicate_app_Cons_same)
qed

text \<open>
  C10. Once the subscription to the queue has succeeded, in every state \<open>s\<close> the worker
  reaches: if \<^verbatim>\<open>Run\<close> has returned, it has returned \<^verbatim>\<open>nil\<close> and the context is cancelled;
  the closing of the delivery channel leaves \<^verbatim>\<open>Run\<close> running; and while the channel is
  closed and empty and the context is not cancelled, the loop cannot return: its only
  step is the receive, and for every \<open>n\<close> it makes \<open>n\<close> more receives of the zero-value
  delivery, calling \<^verbatim>\<open>Ack\<close> on each (which fails with "delivery not initialized"), and
  is still running.
\<close>

theorem Worker_Run_returns_only_on_cancel:
  assumes "worker_run evs (Run_start None) = Some s"
  shows "(\<forall>r. returned s = Some r \<longrightarrow> r = None \<and> ctx_done s) \<and>
         (\<forall>s'. worker_step CloseChannel s = Some s' \<longrightarrow> returned s' = returned s) \<and>
         (chan_closed s \<and> messages s = [] \<and> \<not> ctx_done s \<and> returned s = None \<longrightarrow>
            worker_step SelectDone s = None \<and>
            Ack zero_delivery = Some ''delivery not initialized'' \<and>
            (\<forall>n. \<exists>s'. worker_run (replicate n SelectMessage) s = Some s' \<and>
                       returned s' = None \<and>
                       ack_calls s' = ack_calls s @ replicate n zero_delivery))"
proof (intro conjI allI impI)
  fix r
  assume "returned s = Some r"
  moreover have "returned s = None \<or> returned s = Some None \<and> ctx_done s"
    using worker_run_returned[OF assms] by (simp add: Run_start_def)
  ultimately show "r = None" and "ctx_done s" by auto
next
  fix s'
  assume "worker_step CloseChannel s = Some s'"
  then show "returned s' = returned s" by (auto split: if_splits)
next
  assume "chan_closed s \<and> messages s = [] \<and> \<not> ctx_done s \<and> returned s = None"
  then show "worker_step SelectDone s = None" by simp
next
  show "Ack zero_delivery = Some ''delivery not initialized''"
    by (simp add: Ack_def zero_delivery_def)
next
  fix n
  assume "chan_closed s \<and> messages s = [] \<and> \<not> ctx_done s \<and> returned s = None"
  then show "\<exists>s'. worker_run (replicate n SelectMessage) s = Some s' \<and>
                  returned s' = None \<and>
                  ack_calls s' = ack_calls s @ replicate n zero_delivery"
    using closed_channel_spin[of s n] by blast
qed

theorem Worker_Run_returns_only_on_cancel_witness:
  "\<exists>s. worker_run
          [Deliver \<lparr>Body = ''job 1'', Acknowledger = Some None\<rparr>, SelectMessage,
           CloseChannel, SelectMessage, SelectMessage, Cancel, SelectMessage, SelectDone]
          (Run_start None) = Some s \<and>
       returned s = Some None \<and> ctx_done s \<and>
       ack_calls s = [\<lparr>Body = ''job 1'', Acknowledger = Some None\<rparr>,
                      zero_delivery, zero_delivery, zero_delivery]"
proof -
  obtain s where r: "worker_run
          [Deliver \<lparr>Body = ''job 1'', Acknowledger = Some None\<rparr>, SelectMessage,
           CloseChannel, SelectMessage, SelectMessage, Cancel, SelectMessage, SelectDone]
          (Run_start None) = Some s"
    by (simp add: Run_start_def handle_delivery_def processMessage_def Ack_def
                  zero_delivery_def)
  from r have ret: "returned s \<noteq> None"
    and acks: "ack_calls s = [\<lparr>Body = ''job 1'', Acknowledger = Some None\<rparr>,
                      zero_delivery, zero_delivery, zero_delivery]"
    by (auto simp: Run_start_def handle_delivery_def processMessage_def Ack_def
                   zero_delivery_def)
  from Worker_Run_returns_only_on_cancel[OF r] ret
  have "returned s = Some None \<and> ctx_done s" by auto
  with r acks show ?thesis by blast
qed

end
